theory Spec2Isabelle
  imports Main "HOL-Library.Sublist"
begin

section \<open>JavaScript values\<close>

text \<open>
  The handlers of \<^verbatim>\<open>index.js\<close> (single-database mode) and of its multi-database
  variant receive path parameters, query-string parameters and a JSON body, call
  \<^verbatim>\<open>pool.query\<close> and answer with \<^verbatim>\<open>res.json\<close>. The values they handle are
  modelled by one datatype. An object is an association list read with \<open>map_of\<close>.
  \<open>JNum n\<close> is the Number nearest to the integer \<open>n\<close> (the integer itself up to
  \<open>2 ^ 53\<close>); \<open>JNaN\<close> is the Number \<^verbatim>\<open>NaN\<close>. A string is a list of code units;
  the functions below are exact on code units \<open>0 .. 255\<close>, which is what \<open>char\<close> holds.
\<close>

datatype js_value =
    JUndefined
  | JNull
  | JBool bool
  | JNaN
  | JNum int
  | JStr string
  | JArr "js_value list"
  | JObj "(string \<times> js_value) list"

type_synonym row = "(string \<times> js_value) list"

text \<open>Truthiness, as \<^verbatim>\<open>a || b\<close> tests it.\<close>

fun truthy :: "js_value \<Rightarrow> bool" where
  "truthy JUndefined = False"
| "truthy JNull = False"
| "truthy (JBool b) = b"
| "truthy JNaN = False"
| "truthy (JNum n) = (n \<noteq> 0)"
| "truthy (JStr s) = (s \<noteq> [])"
| "truthy (JArr xs) = True"
| "truthy (JObj fs) = True"

definition js_or :: "js_value \<Rightarrow> js_value \<Rightarrow> js_value" where
  "js_or a b = (if truthy a then a else b)"

subsection \<open>Strings\<close>

text \<open>
  \<^verbatim>\<open>String.prototype.trim\<close> removes white space and line terminators at both ends.
  Below code unit 256 these are TAB, LF, VT, FF, CR, SP and NBSP.
\<close>

definition is_whitespace :: "char \<Rightarrow> bool" where
  "is_whitespace c = (c \<in> {CHR 0x09, CHR 0x0A, CHR 0x0B, CHR 0x0C, CHR 0x0D, CHR 0x20, CHR 0xA0})"

definition trim :: "string \<Rightarrow> string" where
  "trim s = rev (dropWhile is_whitespace (rev (dropWhile is_whitespace s)))"

text \<open>
  \<^verbatim>\<open>toLowerCase\<close>: the upper-case letters below code unit 256 are \<open>A .. Z\<close> and
  \<open>0xC0 .. 0xDE\<close> without the multiplication sign \<open>0xD7\<close>; each one has its lower-case
  form 32 code units further, which is the same code unit with bit 5 set.
\<close>

definition is_upper :: "char \<Rightarrow> bool" where
  "is_upper c = (let n = (of_char c :: nat) in
     (65 \<le> n \<and> n \<le> 90) \<or> (192 \<le> n \<and> n \<le> 222 \<and> n \<noteq> 215))"

fun set_bit5 :: "char \<Rightarrow> char" where
  "set_bit5 (Char b0 b1 b2 b3 b4 b5 b6 b7) = Char b0 b1 b2 b3 b4 True b6 b7"

definition lower_char :: "char \<Rightarrow> char" where
  "lower_char c = (if is_upper c then set_bit5 c else c)"

definition toLowerCase :: "string \<Rightarrow> string" where
  "toLowerCase s = map lower_char s"

definition startsWith :: "string \<Rightarrow> string \<Rightarrow> bool" where
  "startsWith s p = prefix p s"

subsection \<open>ToString and parseInt\<close>

definition digit_char :: "nat \<Rightarrow> char" where
  "digit_char d = ''0123456789'' ! d"

fun decimal :: "nat \<Rightarrow> string" where
  "decimal n = (if n < 10 then [digit_char n] else decimal (n div 10) @ [digit_char (n mod 10)])"

declare decimal.simps [simp del]

text \<open>
  \<^verbatim>\<open>ToString\<close>. A Number is printed in decimal, which is what JavaScript does for an
  integer of magnitude below \<open>10 ^ 21\<close>. In an array, \<^verbatim>\<open>undefined\<close> and \<^verbatim>\<open>null\<close>
  print as the empty string and the elements are joined by commas.
\<close>

fun join_comma :: "string list \<Rightarrow> string" where
  "join_comma [] = []"
| "join_comma [s] = s"
| "join_comma (s # t # ss) = s @ '','' @ join_comma (t # ss)"

fun ToString :: "js_value \<Rightarrow> string" where
  "ToString JUndefined = ''undefined''"
| "ToString JNull = ''null''"
| "ToString (JBool b) = (if b then ''true'' else ''false'')"
| "ToString JNaN = ''NaN''"
| "ToString (JNum n) = (if n < 0 then ''-'' @ decimal (nat (- n)) else decimal (nat n))"
| "ToString (JStr s) = s"
| "ToString (JArr xs) =
     join_comma (map (\<lambda>x. if x = JUndefined \<or> x = JNull then [] else ToString x) xs)"
| "ToString (JObj fs) = ''[object Object]''"

text \<open>
  \<^verbatim>\<open>parseInt(v)\<close> with no radix: the argument is converted to a string, leading white
  space is skipped, one sign is read, the prefix \<^verbatim>\<open>0x\<close> or \<^verbatim>\<open>0X\<close> selects radix 16
  (otherwise 10), and the longest run of digits of that radix is the value. With no
  digit the result is \<^verbatim>\<open>NaN\<close>. Whatever follows the digits is ignored, so a decimal
  fraction is cut off.
\<close>

definition digit_value :: "char \<Rightarrow> nat" where
  "digit_value c = (let n = (of_char c :: nat) in
     if 48 \<le> n \<and> n \<le> 57 then n - 48
     else if 97 \<le> n \<and> n \<le> 102 then n - 87
     else if 65 \<le> n \<and> n \<le> 70 then n - 55
     else 36)"

definition is_digit :: "nat \<Rightarrow> char \<Rightarrow> bool" where
  "is_digit radix c = (digit_value c < radix)"

definition digits_value :: "nat \<Rightarrow> string \<Rightarrow> nat" where
  "digits_value radix z = foldl (\<lambda>a c. a * radix + digit_value c) 0 z"

definition strip_sign :: "string \<Rightarrow> int \<times> string" where
  "strip_sign s = (case s of
       [] \<Rightarrow> (1, s)
     | c # r \<Rightarrow> if c = CHR ''-'' then (- 1, r) else if c = CHR ''+'' then (1, r) else (1, s))"

definition strip_prefix :: "string \<Rightarrow> nat \<times> string" where
  "strip_prefix s = (if startsWith s ''0x'' \<or> startsWith s ''0X'' then (16, drop 2 s) else (10, s))"

definition parseInt :: "js_value \<Rightarrow> js_value" where
  "parseInt v =
     (let (sign, s1) = strip_sign (dropWhile is_whitespace (ToString v));
          (radix, s2) = strip_prefix s1;
          z = takeWhile (is_digit radix) s2
      in if z = [] then JNaN else JNum (sign * int (digits_value radix z)))"

section \<open>The connection pool\<close>

text \<open>
  \<^verbatim>\<open>pool.query(sql, values)\<close> is the only access to the database. The database
  layer (driver and server) is external: it is a parameter, a function from the
  statement and the database's state to an outcome and the next state. The outcome is
  either the message of the error that the promise rejects with or the rows of the
  result set. The pool also records every round-trip with its outcome.
\<close>

record query =
  sql :: string
  params :: "js_value list"

type_synonym outcome = "string + row list"

record 'db pool =
  server :: "query \<Rightarrow> 'db \<Rightarrow> outcome \<times> 'db"
  db :: 'db
  issued :: "(query \<times> outcome) list"

datatype js_error = TypeError string | DbError string

fun message :: "js_error \<Rightarrow> string" where
  "message (TypeError m) = m"
| "message (DbError m) = m"

definition pool_query :: "string \<Rightarrow> js_value list \<Rightarrow> 'db pool \<Rightarrow> (js_error + row list) \<times> 'db pool" where
  "pool_query text vals p =
     (let q = \<lparr>sql = text, params = vals\<rparr>;
          (r, d) = server p q (db p);
          p' = p\<lparr>db := d, issued := issued p @ [(q, r)]\<rparr>
      in (case r of Inl m \<Rightarrow> (Inl (DbError m), p') | Inr rows \<Rightarrow> (Inr rows, p')))"

section \<open>Responses\<close>

text \<open>
  \<^verbatim>\<open>res.status(c).json(obj)\<close>; without \<^verbatim>\<open>status\<close> the code is 200. The body is
  written by \<^verbatim>\<open>JSON.stringify\<close>, which leaves out a property whose value is
  \<^verbatim>\<open>undefined\<close>.
\<close>

record response =
  status :: nat
  body :: "(string \<times> js_value) list"

definition res_json :: "nat \<Rightarrow> (string \<times> js_value) list \<Rightarrow> response" where
  "res_json c obj = \<lparr>status = c, body = filter (\<lambda>(k, v). v \<noteq> JUndefined) obj\<rparr>"

text \<open>The \<^verbatim>\<open>catch\<close> block that every handler but \<^verbatim>\<open>/health\<close> ends with.\<close>

definition catch_500 :: "js_error \<Rightarrow> response" where
  "catch_500 e = res_json 500 [(''success'', JBool False), (''error'', JStr (message e))]"

section \<open>Handlers\<close>

subsection \<open>POST /query\<close>

text \<open>
  \<^verbatim>\<open>const { query } = req.body\<close> throws a TypeError when the body is
  \<^verbatim>\<open>undefined\<close> or \<^verbatim>\<open>null\<close>; \<^verbatim>\<open>query.trim()\<close> throws one when \<^verbatim>\<open>query\<close> is
  \<^verbatim>\<open>undefined\<close> or \<^verbatim>\<open>null\<close>, or has no method \<^verbatim>\<open>trim\<close>. The messages are V8's.
\<close>

definition destructure_query :: "js_value \<Rightarrow> js_error + js_value" where
  "destructure_query b = (case b of
       JUndefined \<Rightarrow> Inl (TypeError ''Cannot destructure property 'query' of 'req.body' as it is undefined.'')
     | JNull \<Rightarrow> Inl (TypeError ''Cannot destructure property 'query' of 'req.body' as it is null.'')
     | JObj fs \<Rightarrow> (case map_of fs ''query'' of None \<Rightarrow> Inr JUndefined | Some v \<Rightarrow> Inr v)
     | _ \<Rightarrow> Inr JUndefined)"

definition is_select :: "js_value \<Rightarrow> js_error + bool" where
  "is_select q = (case q of
       JStr s \<Rightarrow> Inr (startsWith (toLowerCase (trim s)) ''select'')
     | JUndefined \<Rightarrow> Inl (TypeError ''Cannot read properties of undefined (reading 'trim')'')
     | JNull \<Rightarrow> Inl (TypeError ''Cannot read properties of null (reading 'trim')'')
     | _ \<Rightarrow> Inl (TypeError ''query.trim is not a function''))"

text \<open>
  \<^verbatim>\<open>pool.query(query)\<close> is reached with a string only, and \<open>ToString\<close> of a string
  is the string itself.
\<close>

definition query_handler :: "js_value \<Rightarrow> 'db pool \<Rightarrow> response \<times> 'db pool" where
  "query_handler req_body p =
     (case destructure_query req_body of
        Inl e \<Rightarrow> (catch_500 e, p)
      | Inr q \<Rightarrow>
         (case is_select q of
            Inl e \<Rightarrow> (catch_500 e, p)
          | Inr False \<Rightarrow>
              (res_json 400 [(''success'', JBool False), (''error'', JStr ''Only SELECT queries are allowed'')], p)
          | Inr True \<Rightarrow>
              (case pool_query (ToString q) [] p of
                 (Inl e, p') \<Rightarrow> (catch_500 e, p')
               | (Inr rows, p') \<Rightarrow>
                   (res_json 200 [(''success'', JBool True),
                                  (''count'', JNum (int (length rows))),
                                  (''data'', JArr (map JObj rows))], p'))))"

subsection \<open>GET /health\<close>

text \<open>The time stamp \<^verbatim>\<open>new Date().toISOString()\<close> is an argument of the model.\<close>

definition health :: "string \<Rightarrow> 'db pool \<Rightarrow> response \<times> 'db pool" where
  "health now p =
     (case pool_query ''SELECT 1'' [] p of
        (Inl e, p') \<Rightarrow>
          (res_json 500 [(''status'', JStr ''error''),
                         (''message'', JStr ''Database connection failed''),
                         (''error'', JStr (message e))], p')
      | (Inr rows, p') \<Rightarrow>
          (res_json 200 [(''status'', JStr ''ok''),
                         (''message'', JStr ''Database connection successful''),
                         (''timestamp'', JStr now)], p'))"

subsection \<open>Listing tables and databases\<close>

text \<open>
  \<^verbatim>\<open>Object.values(row)[0]\<close>: a row lists its columns in the order in which
  \<^verbatim>\<open>Object.values\<close> enumerates them, with distinct names; a row without columns
  gives \<^verbatim>\<open>undefined\<close>.
\<close>

definition first_value :: "row \<Rightarrow> js_value" where
  "first_value r = (case r of [] \<Rightarrow> JUndefined | (k, v) # _ \<Rightarrow> v)"

definition tables :: "'db pool \<Rightarrow> response \<times> 'db pool" where
  "tables p =
     (case pool_query ''SHOW TABLES'' [] p of
        (Inl e, p') \<Rightarrow> (catch_500 e, p')
      | (Inr rows, p') \<Rightarrow>
          (let tableNames = map first_value rows
           in (res_json 200 [(''success'', JBool True),
                             (''count'', JNum (int (length tableNames))),
                             (''tables'', JArr tableNames)], p')))"

definition databases :: "'db pool \<Rightarrow> response \<times> 'db pool" where
  "databases p =
     (case pool_query ''SHOW DATABASES'' [] p of
        (Inl e, p') \<Rightarrow> (catch_500 e, p')
      | (Inr rows, p') \<Rightarrow>
          (let dbNames = map first_value rows
           in (res_json 200 [(''success'', JBool True),
                             (''count'', JNum (int (length dbNames))),
                             (''databases'', JArr dbNames)], p')))"

definition database_tables :: "string \<Rightarrow> 'db pool \<Rightarrow> response \<times> 'db pool" where
  "database_tables dbName p =
     (case pool_query (''SHOW TABLES FROM `'' @ dbName @ ''`'') [] p of
        (Inl e, p') \<Rightarrow> (catch_500 e, p')
      | (Inr rows, p') \<Rightarrow>
          (let tableNames = map first_value rows
           in (res_json 200 [(''success'', JBool True),
                             (''database'', JStr dbName),
                             (''count'', JNum (int (length tableNames))),
                             (''tables'', JArr tableNames)], p')))"

subsection \<open>Table structure\<close>

definition table_structure :: "string \<Rightarrow> 'db pool \<Rightarrow> response \<times> 'db pool" where
  "table_structure tableName p =
     (case pool_query (''DESCRIBE '' @ tableName) [] p of
        (Inl e, p') \<Rightarrow> (catch_500 e, p')
      | (Inr columns, p') \<Rightarrow>
          (res_json 200 [(''success'', JBool True),
                         (''table'', JStr tableName),
                         (''columns'', JArr (map JObj columns))], p'))"

definition database_table_structure :: "string \<Rightarrow> string \<Rightarrow> 'db pool \<Rightarrow> response \<times> 'db pool" where
  "database_table_structure dbName tableName p =
     (case pool_query (''DESCRIBE `'' @ dbName @ ''`.`'' @ tableName @ ''`'') [] p of
        (Inl e, p') \<Rightarrow> (catch_500 e, p')
      | (Inr columns, p') \<Rightarrow>
          (res_json 200 [(''success'', JBool True),
                         (''database'', JStr dbName),
                         (''table'', JStr tableName),
                         (''columns'', JArr (map JObj columns))], p'))"

subsection \<open>Paged table data\<close>

text \<open>
  \<^verbatim>\<open>countResult[0].total\<close>: reading \<^verbatim>\<open>total\<close> of the first row throws a TypeError
  when there is no row, and is \<^verbatim>\<open>undefined\<close> when the row has no such column.
\<close>

definition get_prop :: "row \<Rightarrow> string \<Rightarrow> js_value" where
  "get_prop r k = (case map_of r k of None \<Rightarrow> JUndefined | Some v \<Rightarrow> v)"

definition first_total :: "row list \<Rightarrow> js_error + js_value" where
  "first_total countResult = (case countResult of
       [] \<Rightarrow> Inl (TypeError ''Cannot read properties of undefined (reading 'total')'')
     | r # _ \<Rightarrow> Inr (get_prop r ''total''))"

definition page_params :: "js_value \<Rightarrow> js_value \<Rightarrow> js_value list" where
  "page_params limit offset = [parseInt (js_or limit (JNum 100)), parseInt (js_or offset (JNum 0))]"

definition table_data :: "string \<Rightarrow> js_value \<Rightarrow> js_value \<Rightarrow> 'db pool \<Rightarrow> response \<times> 'db pool" where
  "table_data tableName limit offset p =
     (case pool_query (''SELECT * FROM '' @ tableName @ '' LIMIT ? OFFSET ?'')
                      (page_params limit offset) p of
        (Inl e, p') \<Rightarrow> (catch_500 e, p')
      | (Inr rows, p') \<Rightarrow>
          (case pool_query (''SELECT COUNT(*) as total FROM '' @ tableName) [] p' of
             (Inl e, p'') \<Rightarrow> (catch_500 e, p'')
           | (Inr countResult, p'') \<Rightarrow>
               (case first_total countResult of
                  Inl e \<Rightarrow> (catch_500 e, p'')
                | Inr total_value \<Rightarrow>
                    (res_json 200 [(''success'', JBool True),
                                   (''table'', JStr tableName),
                                   (''total'', total_value),
                                   (''count'', JNum (int (length rows))),
                                   (''data'', JArr (map JObj rows))], p''))))"

definition database_table_data ::
  "string \<Rightarrow> string \<Rightarrow> js_value \<Rightarrow> js_value \<Rightarrow> 'db pool \<Rightarrow> response \<times> 'db pool" where
  "database_table_data dbName tableName limit offset p =
     (case pool_query (''SELECT * FROM `'' @ dbName @ ''`.`'' @ tableName @ ''` LIMIT ? OFFSET ?'')
                      (page_params limit offset) p of
        (Inl e, p') \<Rightarrow> (catch_500 e, p')
      | (Inr rows, p') \<Rightarrow>
          (case pool_query (''SELECT COUNT(*) as total FROM `'' @ dbName @ ''`.`'' @ tableName @ ''`'') [] p' of
             (Inl e, p'') \<Rightarrow> (catch_500 e, p'')
           | (Inr countResult, p'') \<Rightarrow>
               (case first_total countResult of
                  Inl e \<Rightarrow> (catch_500 e, p'')
                | Inr total_value \<Rightarrow>
                    (res_json 200 [(''success'', JBool True),
                                   (''database'', JStr dbName),
                                   (''table'', JStr tableName),
                                   (''total'', total_value),
                                   (''count'', JNum (int (length rows))),
                                   (''data'', JArr (map JObj rows))], p''))))"

subsection \<open>Fixed-table shortcuts\<close>

text \<open>
  \<^verbatim>\<open>/deals\<close>, \<^verbatim>\<open>/companies\<close>, \<^verbatim>\<open>/contacts\<close> and \<^verbatim>\<open>/leads\<close> are four copies
  of one handler body that differ only in the table name written into the statement.
\<close>

definition fixed_table :: "string \<Rightarrow> js_value \<Rightarrow> 'db pool \<Rightarrow> response \<times> 'db pool" where
  "fixed_table name limit p =
     (case pool_query (''SELECT * FROM '' @ name @ '' LIMIT ?'') [parseInt (js_or limit (JNum 100))] p of
        (Inl e, p') \<Rightarrow> (catch_500 e, p')
      | (Inr rows, p') \<Rightarrow>
          (res_json 200 [(''success'', JBool True),
                         (''count'', JNum (int (length rows))),
                         (''data'', JArr (map JObj rows))], p'))"

definition deals :: "js_value \<Rightarrow> 'db pool \<Rightarrow> response \<times> 'db pool" where
  "deals = fixed_table ''deal''"

definition companies :: "js_value \<Rightarrow> 'db pool \<Rightarrow> response \<times> 'db pool" where
  "companies = fixed_table ''company''"

definition contacts :: "js_value \<Rightarrow> 'db pool \<Rightarrow> response \<times> 'db pool" where
  "contacts = fixed_table ''contact''"

definition leads :: "js_value \<Rightarrow> 'db pool \<Rightarrow> response \<times> 'db pool" where
  "leads = fixed_table ''lead''"

subsection \<open>Routing\<close>

text \<open>
  The requests that reach the database, in both modes. The static description at
  \<^verbatim>\<open>/\<close> makes no query and is left out.
\<close>

datatype request =
    Health string
  | Tables
  | TableStructure string
  | TableData string js_value js_value
  | Query js_value
  | Deals js_value
  | Companies js_value
  | Contacts js_value
  | Leads js_value
  | Databases
  | DatabaseTables string
  | DatabaseTableData string string js_value js_value
  | DatabaseTableStructure string string

fun handle :: "request \<Rightarrow> 'db pool \<Rightarrow> response \<times> 'db pool" where
  "handle (Health now) = health now"
| "handle Tables = tables"
| "handle (TableStructure t) = table_structure t"
| "handle (TableData t limit offset) = table_data t limit offset"
| "handle (Query b) = query_handler b"
| "handle (Deals limit) = deals limit"
| "handle (Companies limit) = companies limit"
| "handle (Contacts limit) = contacts limit"
| "handle (Leads limit) = leads limit"
| "handle Databases = databases"
| "handle (DatabaseTables d) = database_tables d"
| "handle (DatabaseTableData d t limit offset) = database_table_data d t limit offset"
| "handle (DatabaseTableStructure d t) = database_table_structure d t"

text \<open>The round-trips that running a handler adds to the pool's record.\<close>

definition round_trips :: "('db pool \<Rightarrow> response \<times> 'db pool) \<Rightarrow> 'db pool \<Rightarrow> (query \<times> outcome) list" where
  "round_trips h p = drop (length (issued p)) (issued (snd (h p)))"

section \<open>Statements sent by the paged operations\<close>

definition page_query :: "string \<Rightarrow> js_value \<Rightarrow> js_value \<Rightarrow> query" where
  "page_query tableName limit offset =
     \<lparr>sql = ''SELECT * FROM '' @ tableName @ '' LIMIT ? OFFSET ?'', params = page_params limit offset\<rparr>"

definition count_query :: "string \<Rightarrow> query" where
  "count_query tableName = \<lparr>sql = ''SELECT COUNT(*) as total FROM '' @ tableName, params = []\<rparr>"

definition db_page_query :: "string \<Rightarrow> string \<Rightarrow> js_value \<Rightarrow> js_value \<Rightarrow> query" where
  "db_page_query dbName tableName limit offset =
     \<lparr>sql = ''SELECT * FROM `'' @ dbName @ ''`.`'' @ tableName @ ''` LIMIT ? OFFSET ?'',
      params = page_params limit offset\<rparr>"

definition db_count_query :: "string \<Rightarrow> string \<Rightarrow> query" where
  "db_count_query dbName tableName =
     \<lparr>sql = ''SELECT COUNT(*) as total FROM `'' @ dbName @ ''`.`'' @ tableName @ ''`'', params = []\<rparr>"

definition limit_query :: "string \<Rightarrow> js_value \<Rightarrow> query" where
  "limit_query name limit =
     \<lparr>sql = ''SELECT * FROM '' @ name @ '' LIMIT ?'', params = [parseInt (js_or limit (JNum 100))]\<rparr>"

text \<open>The four shortcut routes of single-database mode with their tables.\<close>

definition shortcuts :: "(string \<times> (js_value \<Rightarrow> 'db pool \<Rightarrow> response \<times> 'db pool)) list" where
  "shortcuts = [(''deal'', deals), (''company'', companies), (''contact'', contacts), (''lead'', leads)]"

text \<open>What a response carries as rows and as count.\<close>

definition rows_and_count :: "response \<Rightarrow> js_value option \<times> js_value option" where
  "rows_and_count r = (map_of (body r) ''data'', map_of (body r) ''count'')"

text \<open>The failure envelope of \<^verbatim>\<open>/health\<close>, which has its own shape.\<close>

definition health_failure :: "string \<Rightarrow> response" where
  "health_failure m =
     res_json 500 [(''status'', JStr ''error''),
                   (''message'', JStr ''Database connection failed''),
                   (''error'', JStr m)]"

fun is_health :: "request \<Rightarrow> bool" where
  "is_health (Health now) = True"
| "is_health r = False"

section \<open>The identifier allow-list of the specification\<close>

text \<open>
  Modelled from the spec: the identifier guard, which the source does not have. The
  specification asks for letters, digits and underscore only, a non-empty name and a
  bounded length; the bound is an argument.
\<close>

definition ident_char :: "char \<Rightarrow> bool" where
  "ident_char c = (let n = (of_char c :: nat) in
     (48 \<le> n \<and> n \<le> 57) \<or> (65 \<le> n \<and> n \<le> 90) \<or> (97 \<le> n \<and> n \<le> 122) \<or> n = 95)"

definition valid_identifier :: "nat \<Rightarrow> string \<Rightarrow> bool" where
  "valid_identifier bound s = (s \<noteq> [] \<and> length s \<le> bound \<and> list_all ident_char s)"

section \<open>Sample databases\<close>

text \<open>
  A database layer with one table, as MySQL answers the statements of the handlers:
  a page needs a non-negative integer limit (and offset) and is cut from the rows in
  their stored order, the count is the number of rows, and any other statement is an
  error. Its state is the number of statements it has served.
\<close>

definition table_server :: "string \<Rightarrow> row list \<Rightarrow> row list \<Rightarrow> query \<Rightarrow> nat \<Rightarrow> outcome \<times> nat" where
  "table_server name columns rows q served =
     (if sql q = ''SELECT * FROM '' @ name @ '' LIMIT ? OFFSET ?'' then
        (case params q of
           [JNum l, JNum k] \<Rightarrow>
             if 0 \<le> l \<and> 0 \<le> k then Inr (take (nat l) (drop (nat k) rows))
             else Inl ''You have an error in your SQL syntax''
         | _ \<Rightarrow> Inl ''You have an error in your SQL syntax'')
      else if sql q = ''SELECT * FROM '' @ name @ '' LIMIT ?'' then
        (case params q of
           [JNum l] \<Rightarrow>
             if 0 \<le> l then Inr (take (nat l) rows)
             else Inl ''You have an error in your SQL syntax''
         | _ \<Rightarrow> Inl ''You have an error in your SQL syntax'')
      else if sql q = ''SELECT COUNT(*) as total FROM '' @ name then
        Inr [[(''total'', JNum (int (length rows)))]]
      else if sql q = ''DESCRIBE '' @ name then Inr columns
      else if sql q = ''SELECT 1'' then Inr [[(''1'', JNum 1)]]
      else Inl ''You have an error in your SQL syntax'',
      Suc served)"

definition order_columns :: "row list" where
  "order_columns =
     [[(''Field'', JStr ''id''), (''Type'', JStr ''int'')],
      [(''Field'', JStr ''item''), (''Type'', JStr ''varchar(64)'')]]"

definition order_rows :: "row list" where
  "order_rows =
     [[(''id'', JNum 1), (''item'', JStr ''pen'')],
      [(''id'', JNum 2), (''item'', JStr ''ink'')],
      [(''id'', JNum 3), (''item'', JStr ''pad'')],
      [(''id'', JNum 4), (''item'', JStr ''cap'')],
      [(''id'', JNum 5), (''item'', JStr ''nib'')]]"

definition orders_pool :: "nat pool" where
  "orders_pool = \<lparr>server = table_server ''orders'' order_columns order_rows, db = 0, issued = []\<rparr>"

definition shop_orders_pool :: "nat pool" where
  "shop_orders_pool = \<lparr>server = table_server ''shop.orders'' order_columns order_rows, db = 0, issued = []\<rparr>"

definition deal_pool :: "nat pool" where
  "deal_pool = \<lparr>server = table_server ''deal'' order_columns order_rows, db = 0, issued = []\<rparr>"

text \<open>A database that cannot be reached: every statement is refused.\<close>

definition unreachable :: "query \<Rightarrow> nat \<Rightarrow> outcome \<times> nat" where
  "unreachable q served = (Inl ''connect ECONNREFUSED'', served)"

definition unreachable_pool :: "nat pool" where
  "unreachable_pool = \<lparr>server = unreachable, db = 0, issued = []\<rparr>"

text \<open>The multi-database variant reaches the same table as \<^verbatim>\<open>`shop`.`orders`\<close>.\<close>

definition shop_db_pool :: "nat pool" where
  "shop_db_pool = \<lparr>server = table_server ''`shop`.`orders`'' order_columns order_rows, db = 0, issued = []\<rparr>"

text \<open>
  A connection that is reset: the database layer serves the first \<open>n\<close> statements
  and refuses every later one.
\<close>

definition reset_after :: "nat \<Rightarrow> (query \<Rightarrow> nat \<Rightarrow> outcome \<times> nat) \<Rightarrow> query \<Rightarrow> nat \<Rightarrow> outcome \<times> nat" where
  "reset_after n srv q served = (if served < n then srv q served else (Inl ''read ECONNRESET'', Suc served))"

definition deal_reset_pool :: "nat pool" where
  "deal_reset_pool =
     \<lparr>server = reset_after 1 (table_server ''deal'' order_columns order_rows), db = 0, issued = []\<rparr>"

section \<open>A response without table and total\<close>

text \<open>
  The envelope of a shortcut has neither the \<^verbatim>\<open>table\<close> field nor the
  \<^verbatim>\<open>total\<close> field of paged table data.
\<close>

definition without_table_total :: "response \<Rightarrow> response" where
  "without_table_total r = r\<lparr>body := filter (\<lambda>(k, v). k \<noteq> ''table'' \<and> k \<noteq> ''total'') (body r)\<rparr>"

section \<open>An unchanged table\<close>


section \<open>Facts about the pool\<close>

lemma pool_query_Inl:
  "server p \<lparr>sql = text, params = vals\<rparr> (db p) = (Inl m, d) \<Longrightarrow>
   pool_query text vals p =
     (Inl (DbError m), p\<lparr>db := d, issued := issued p @ [(\<lparr>sql = text, params = vals\<rparr>, Inl m)]\<rparr>)"
  by (simp add: pool_query_def Let_def)

lemma pool_query_Inr:
  "server p \<lparr>sql = text, params = vals\<rparr> (db p) = (Inr rows, d) \<Longrightarrow>
   pool_query text vals p =
     (Inr rows, p\<lparr>db := d, issued := issued p @ [(\<lparr>sql = text, params = vals\<rparr>, Inr rows)]\<rparr>)"
  by (simp add: pool_query_def Let_def)

section \<open>The read-only guard of POST /query\<close>

text \<open>
  Claim C1. A query text whose trimmed, lower-cased form does not start with
  \<^verbatim>\<open>select\<close> is answered with status 400, \<^verbatim>\<open>success: false\<close> and the message
  \<^verbatim>\<open>Only SELECT queries are allowed\<close>; the pool is left as it was, so no statement
  is sent to the database.
\<close>

theorem query_rejects_non_select:
  assumes "map_of fs ''query'' = Some (JStr q)"
    and "\<not> startsWith (toLowerCase (trim q)) ''select''"
  shows "query_handler (JObj fs) p =
           (\<lparr>status = 400,
             body = [(''success'', JBool False), (''error'', JStr ''Only SELECT queries are allowed'')]\<rparr>, p)
         \<and> round_trips (query_handler (JObj fs)) p = []"
  using assms
  by (simp add: query_handler_def destructure_query_def is_select_def res_json_def round_trips_def)

theorem query_rejects_non_select_witness:
  "query_handler (JObj [(''query'', JStr ''DROP TABLE orders'')]) orders_pool =
     (\<lparr>status = 400,
       body = [(''success'', JBool False), (''error'', JStr ''Only SELECT queries are allowed'')]\<rparr>, orders_pool)
   \<and> round_trips (query_handler (JObj [(''query'', JStr ''DROP TABLE orders'')])) orders_pool = []"
proof -
  have a: "map_of [(''query'', JStr ''DROP TABLE orders'')] ''query'' = Some (JStr ''DROP TABLE orders'')"
    by simp
  have b: "\<not> startsWith (toLowerCase (trim ''DROP TABLE orders'')) ''select''"
    by code_simp
  show ?thesis by (rule query_rejects_non_select [OF a b])
qed



text \<open>
  Claim C6. A body without a \<^verbatim>\<open>query\<close> field does not get the 400 answer of the
  guard: \<^verbatim>\<open>query.trim()\<close> throws on \<^verbatim>\<open>undefined\<close>, the \<^verbatim>\<open>catch\<close> block answers
  with status 500 and the TypeError's message. No statement is sent to the database.
\<close>

theorem query_without_text_is_server_error:
  "query_handler (JObj []) p =
     (\<lparr>status = 500,
       body = [(''success'', JBool False),
               (''error'', JStr ''Cannot read properties of undefined (reading 'trim')'')]\<rparr>, p)
   \<and> round_trips (query_handler (JObj [])) p = []"
  by (simp add: query_handler_def destructure_query_def is_select_def catch_500_def res_json_def
        round_trips_def)

section \<open>Identifiers in statements\<close>

lemma status_catch_500 [simp]: "status (catch_500 e) = 500"
  by (simp add: catch_500_def res_json_def)

lemma status_res_json [simp]: "status (res_json c obj) = c"
  by (simp add: res_json_def)

lemma table_structure_trips:
  "map fst (round_trips (table_structure t) p) = [\<lparr>sql = ''DESCRIBE '' @ t, params = []\<rparr>]"
  by (simp add: table_structure_def round_trips_def pool_query_def Let_def split: prod.splits sum.splits)

lemma database_table_structure_trips:
  "map fst (round_trips (database_table_structure d t) p) =
     [\<lparr>sql = ''DESCRIBE `'' @ d @ ''`.`'' @ t @ ''`'', params = []\<rparr>]"
  by (simp add: database_table_structure_def round_trips_def pool_query_def Let_def
      split: prod.splits sum.splits)

lemma database_tables_trips:
  "map fst (round_trips (database_tables d) p) = [\<lparr>sql = ''SHOW TABLES FROM `'' @ d @ ''`'', params = []\<rparr>]"
  by (simp add: database_tables_def round_trips_def pool_query_def Let_def split: prod.splits sum.splits)

lemma table_data_trips:
  "map fst (round_trips (table_data t l k) p) =
     (case fst (server p (page_query t l k) (db p)) of
        Inl m \<Rightarrow> [page_query t l k]
      | Inr rows \<Rightarrow> [page_query t l k, count_query t])"
  by (simp add: table_data_def round_trips_def pool_query_def Let_def page_query_def count_query_def
      split: prod.splits sum.splits)

lemma database_table_data_trips:
  "map fst (round_trips (database_table_data d t l k) p) =
     (case fst (server p (db_page_query d t l k) (db p)) of
        Inl m \<Rightarrow> [db_page_query d t l k]
      | Inr rows \<Rightarrow> [db_page_query d t l k, db_count_query d t])"
  by (simp add: database_table_data_def round_trips_def pool_query_def Let_def db_page_query_def
      db_count_query_def split: prod.splits sum.splits)

lemma table_structure_status: "status (fst (table_structure t p)) \<noteq> 400"
  by (simp add: table_structure_def split: prod.splits sum.splits)

lemma table_data_status: "status (fst (table_data t l k p)) \<noteq> 400"
  by (simp add: table_data_def split: prod.splits sum.splits)

lemma database_tables_status: "status (fst (database_tables d p)) \<noteq> 400"
  by (simp add: database_tables_def Let_def split: prod.splits sum.splits)

lemma database_table_data_status: "status (fst (database_table_data d t l k p)) \<noteq> 400"
  by (simp add: database_table_data_def split: prod.splits sum.splits)

lemma database_table_structure_status: "status (fst (database_table_structure d t p)) \<noteq> 400"
  by (simp add: database_table_structure_def split: prod.splits sum.splits)

text \<open>
  Claim C2, as the specification states it, fails: \<^verbatim>\<open>shop.orders\<close> has a dot, so it
  is outside the allow-list, and \<^verbatim>\<open>GET /table/shop.orders/structure\<close> sends
  \<^verbatim>\<open>DESCRIBE shop.orders\<close> to the database and answers with the columns.
\<close>

theorem identifier_guard_counterexample:
  "\<not> valid_identifier 64 ''shop.orders''
   \<and> map fst (round_trips (table_structure ''shop.orders'') shop_orders_pool)
       = [\<lparr>sql = ''DESCRIBE shop.orders'', params = []\<rparr>]
   \<and> fst (table_structure ''shop.orders'' shop_orders_pool)
       = \<lparr>status = 200,
          body = [(''success'', JBool True), (''table'', JStr ''shop.orders''),
                  (''columns'', JArr (map JObj order_columns))]\<rparr>"
  by code_simp

text \<open>
  Claim C2, amended. The operations that take a database or table name check nothing:
  whatever the name is, it is written into the statement text (between backticks in
  the multi-database variant) and that statement is sent; table structure and the
  table list make exactly that one round-trip, paged table data starts with it, and
  none of them answers with the status 400 of a validation failure.
\<close>

theorem identifiers_are_not_validated:
  "map fst (round_trips (table_structure t) p) = [\<lparr>sql = ''DESCRIBE '' @ t, params = []\<rparr>]
   \<and> map fst (round_trips (database_table_structure d t) p)
       = [\<lparr>sql = ''DESCRIBE `'' @ d @ ''`.`'' @ t @ ''`'', params = []\<rparr>]
   \<and> map fst (round_trips (database_tables d) p)
       = [\<lparr>sql = ''SHOW TABLES FROM `'' @ d @ ''`'', params = []\<rparr>]
   \<and> take 1 (map fst (round_trips (table_data t l k) p))
       = [\<lparr>sql = ''SELECT * FROM '' @ t @ '' LIMIT ? OFFSET ?'', params = page_params l k\<rparr>]
   \<and> take 1 (map fst (round_trips (database_table_data d t l k) p))
       = [\<lparr>sql = ''SELECT * FROM `'' @ d @ ''`.`'' @ t @ ''` LIMIT ? OFFSET ?'', params = page_params l k\<rparr>]
   \<and> status (fst (table_structure t p)) \<noteq> 400
   \<and> status (fst (database_table_structure d t p)) \<noteq> 400
   \<and> status (fst (database_tables d p)) \<noteq> 400
   \<and> status (fst (table_data t l k p)) \<noteq> 400
   \<and> status (fst (database_table_data d t l k p)) \<noteq> 400"
  by (simp add: table_structure_trips database_table_structure_trips database_tables_trips
      table_data_trips database_table_data_trips table_structure_status table_data_status
      database_tables_status database_table_data_status database_table_structure_status
      page_query_def db_page_query_def split: sum.splits)

section \<open>Limit and offset\<close>

lemma parseInt_is_number: "parseInt v = JNaN \<or> (\<exists>n. parseInt v = JNum n)"
  by (simp add: parseInt_def Let_def split: prod.splits)

lemma page_params_missing: "page_params JUndefined JUndefined = [JNum 100, JNum 0]"
  by code_simp

lemma parseInt_cuts_fraction: "parseInt (JStr ''-3.7'') = JNum (- 3) \<and> parseInt (JStr ''42.9'') = JNum 42"
  by code_simp

text \<open>
  Claim C4. With \<^verbatim>\<open>limit=abc\<close> the value bound for the limit is \<^verbatim>\<open>NaN\<close>: the
  string is truthy, so the default 100 is not taken, and \<^verbatim>\<open>parseInt\<close> finds no
  digit. The statement goes out with \<^verbatim>\<open>NaN\<close> and the database refuses it.
\<close>

theorem nonnumeric_limit_is_NaN:
  "map fst (round_trips (table_data ''orders'' (JStr ''abc'') JUndefined) orders_pool)
     = [\<lparr>sql = ''SELECT * FROM orders LIMIT ? OFFSET ?'', params = [JNaN, JNum 0]\<rparr>]
   \<and> fst (table_data ''orders'' (JStr ''abc'') JUndefined orders_pool)
     = \<lparr>status = 500,
        body = [(''success'', JBool False), (''error'', JStr ''You have an error in your SQL syntax'')]\<rparr>"
  by code_simp

section \<open>Failure envelopes\<close>

lemma handle_status: "status (fst (handle r p)) \<in> {200, 400, 500}"
  by (cases r)
     (simp_all add: health_def tables_def table_structure_def table_data_def query_handler_def
        deals_def companies_def contacts_def leads_def fixed_table_def databases_def
        database_tables_def database_table_data_def database_table_structure_def Let_def
        split: prod.splits sum.splits bool.splits)

text \<open>
  Claim C5, as the specification states it, fails at \<^verbatim>\<open>/health\<close>: when the
  database cannot be reached, the error is caught and its message is in the answer, but
  the envelope has \<^verbatim>\<open>status: 'error'\<close> and no \<^verbatim>\<open>success\<close> field.
\<close>

theorem health_failure_counterexample:
  "round_trips (health ''2024-05-01T10:00:00.000Z'') unreachable_pool
     = [(\<lparr>sql = ''SELECT 1'', params = []\<rparr>, Inl ''connect ECONNREFUSED'')]
   \<and> fst (health ''2024-05-01T10:00:00.000Z'' unreachable_pool)
     = \<lparr>status = 500,
        body = [(''status'', JStr ''error''), (''message'', JStr ''Database connection failed''),
                (''error'', JStr ''connect ECONNREFUSED'')]\<rparr>
   \<and> map_of (body (fst (health ''2024-05-01T10:00:00.000Z'' unreachable_pool))) ''success'' = None"
  by code_simp

text \<open>
  Claim C5, amended. Every handler is a total function to a response, so no exception
  leaves it. When a round-trip of the handler ends with an error of the database
  layer, the answer has status 500 and carries the error's message in the field
  \<^verbatim>\<open>error\<close>: together with \<^verbatim>\<open>success: false\<close> in every handler but
  \<^verbatim>\<open>/health\<close>, whose envelope has \<^verbatim>\<open>status: 'error'\<close> and a fixed
  \<^verbatim>\<open>message\<close> instead.
\<close>

theorem db_errors_become_failure_envelopes:
  assumes "(q, Inl m) \<in> set (round_trips (handle r) p)"
  shows "fst (handle r p) = (if is_health r then health_failure m else catch_500 (DbError m))"
  using assms
  by (cases r)
     (auto simp add: health_def health_failure_def tables_def table_structure_def table_data_def
        query_handler_def deals_def companies_def contacts_def leads_def fixed_table_def
        databases_def database_tables_def database_table_data_def database_table_structure_def
        round_trips_def pool_query_def Let_def
        split: prod.splits sum.splits bool.splits)

theorem db_errors_become_failure_envelopes_witness:
  "fst (handle Tables unreachable_pool)
     = \<lparr>status = 500, body = [(''success'', JBool False), (''error'', JStr ''connect ECONNREFUSED'')]\<rparr>
   \<and> fst (handle (Health ''2024-05-01T10:00:00.000Z'') unreachable_pool)
     = \<lparr>status = 500,
        body = [(''status'', JStr ''error''), (''message'', JStr ''Database connection failed''),
                (''error'', JStr ''connect ECONNREFUSED'')]\<rparr>"
proof -
  have a: "(\<lparr>sql = ''SHOW TABLES'', params = []\<rparr>, Inl ''connect ECONNREFUSED'')
             \<in> set (round_trips (handle Tables) unreachable_pool)"
    by code_simp
  have b: "(\<lparr>sql = ''SELECT 1'', params = []\<rparr>, Inl ''connect ECONNREFUSED'')
             \<in> set (round_trips (handle (Health ''2024-05-01T10:00:00.000Z'')) unreachable_pool)"
    by code_simp
  from db_errors_become_failure_envelopes [OF a] db_errors_become_failure_envelopes [OF b]
  show ?thesis
    by (simp add: catch_500_def health_failure_def res_json_def)
qed

section \<open>Paged table data\<close>

lemma table_data_success:
  assumes "status (fst (table_data t l k p)) = 200"
  shows "\<exists>rows c cs.
           round_trips (table_data t l k) p = [(page_query t l k, Inr rows), (count_query t, Inr (c # cs))]
         \<and> fst (table_data t l k p) =
             res_json 200 [(''success'', JBool True), (''table'', JStr t),
                           (''total'', get_prop c ''total''),
                           (''count'', JNum (int (length rows))),
                           (''data'', JArr (map JObj rows))]"
  using assms
  by (auto simp add: table_data_def round_trips_def pool_query_def Let_def page_query_def count_query_def
        first_total_def split: prod.splits sum.splits list.splits)

lemma database_table_data_success:
  assumes "status (fst (database_table_data d t l k p)) = 200"
  shows "\<exists>rows c cs.
           round_trips (database_table_data d t l k) p =
             [(db_page_query d t l k, Inr rows), (db_count_query d t, Inr (c # cs))]
         \<and> fst (database_table_data d t l k p) =
             res_json 200 [(''success'', JBool True), (''database'', JStr d), (''table'', JStr t),
                           (''total'', get_prop c ''total''),
                           (''count'', JNum (int (length rows))),
                           (''data'', JArr (map JObj rows))]"
  using assms
  by (auto simp add: database_table_data_def round_trips_def pool_query_def Let_def db_page_query_def
        db_count_query_def first_total_def split: prod.splits sum.splits list.splits)

text \<open>
  Claim C7, as the specification states it, fails: the name \<^verbatim>\<open>orders\<close> is valid,
  and yet the operation makes one round-trip only when the page statement is refused,
  be it because the database cannot be reached or because the limit is negative. The
  \<^verbatim>\<open>COUNT(*)\<close> statement is never sent then.
\<close>

theorem two_round_trips_counterexample:
  "valid_identifier 64 ''orders''
   \<and> round_trips (table_data ''orders'' (JStr ''2'') (JStr ''0'')) unreachable_pool
       = [(\<lparr>sql = ''SELECT * FROM orders LIMIT ? OFFSET ?'', params = [JNum 2, JNum 0]\<rparr>,
           Inl ''connect ECONNREFUSED'')]
   \<and> round_trips (table_data ''orders'' (JStr ''-1'') (JStr ''0'')) orders_pool
       = [(\<lparr>sql = ''SELECT * FROM orders LIMIT ? OFFSET ?'', params = [JNum (- 1), JNum 0]\<rparr>,
           Inl ''You have an error in your SQL syntax'')]"
  by code_simp

text \<open>
  Claim C7, amended. Paged table data first sends the bounded \<^verbatim>\<open>SELECT\<close> with
  limit and offset as bound values. When the database refuses it, that is the only
  round-trip; when it answers, the \<^verbatim>\<open>COUNT(*)\<close> statement on the same table is
  the second and last round-trip. An answer with status 200 comes from two answered
  round-trips: its \<^verbatim>\<open>data\<close> are the rows of the page, its \<^verbatim>\<open>count\<close> is their
  number and its \<^verbatim>\<open>total\<close> is the \<^verbatim>\<open>total\<close> column of the first row of the
  count. The same holds in the multi-database variant.
\<close>

theorem paged_data_round_trips:
  "map fst (round_trips (table_data t l k) p) =
     (case fst (server p (page_query t l k) (db p)) of
        Inl m \<Rightarrow> [page_query t l k]
      | Inr rows \<Rightarrow> [page_query t l k, count_query t])
   \<and> (status (fst (table_data t l k p)) = 200 \<longrightarrow>
        (\<exists>rows c cs.
           round_trips (table_data t l k) p = [(page_query t l k, Inr rows), (count_query t, Inr (c # cs))]
         \<and> fst (table_data t l k p) =
             res_json 200 [(''success'', JBool True), (''table'', JStr t),
                           (''total'', get_prop c ''total''),
                           (''count'', JNum (int (length rows))),
                           (''data'', JArr (map JObj rows))]))
   \<and> map fst (round_trips (database_table_data d t l k) p) =
     (case fst (server p (db_page_query d t l k) (db p)) of
        Inl m \<Rightarrow> [db_page_query d t l k]
      | Inr rows \<Rightarrow> [db_page_query d t l k, db_count_query d t])
   \<and> (status (fst (database_table_data d t l k p)) = 200 \<longrightarrow>
        (\<exists>rows c cs.
           round_trips (database_table_data d t l k) p =
             [(db_page_query d t l k, Inr rows), (db_count_query d t, Inr (c # cs))]
         \<and> fst (database_table_data d t l k p) =
             res_json 200 [(''success'', JBool True), (''database'', JStr d), (''table'', JStr t),
                           (''total'', get_prop c ''total''),
                           (''count'', JNum (int (length rows))),
                           (''data'', JArr (map JObj rows))]))"
  using table_data_trips [of t l k p] database_table_data_trips [of d t l k p]
    table_data_success [of t l k p] database_table_data_success [of d t l k p]
  by blast

theorem paged_data_round_trips_witness:
  "(\<exists>rows c cs.
      round_trips (table_data ''orders'' (JStr ''2'') (JStr ''0'')) orders_pool
        = [(page_query ''orders'' (JStr ''2'') (JStr ''0''), Inr rows), (count_query ''orders'', Inr (c # cs))]
    \<and> fst (table_data ''orders'' (JStr ''2'') (JStr ''0'') orders_pool) =
        res_json 200 [(''success'', JBool True), (''table'', JStr ''orders''),
                      (''total'', get_prop c ''total''),
                      (''count'', JNum (int (length rows))),
                      (''data'', JArr (map JObj rows))])
   \<and> (\<exists>rows c cs.
      round_trips (database_table_data ''shop'' ''orders'' (JStr ''2'') (JStr ''0'')) shop_db_pool
        = [(db_page_query ''shop'' ''orders'' (JStr ''2'') (JStr ''0''), Inr rows),
           (db_count_query ''shop'' ''orders'', Inr (c # cs))]
    \<and> fst (database_table_data ''shop'' ''orders'' (JStr ''2'') (JStr ''0'') shop_db_pool) =
        res_json 200 [(''success'', JBool True), (''database'', JStr ''shop''), (''table'', JStr ''orders''),
                      (''total'', get_prop c ''total''),
                      (''count'', JNum (int (length rows))),
                      (''data'', JArr (map JObj rows))])
   \<and> fst (table_data ''orders'' (JStr ''2'') (JStr ''0'') orders_pool) =
        \<lparr>status = 200,
         body = [(''success'', JBool True), (''table'', JStr ''orders''), (''total'', JNum 5),
                 (''count'', JNum 2),
                 (''data'', JArr [JObj [(''id'', JNum 1), (''item'', JStr ''pen'')],
                                  JObj [(''id'', JNum 2), (''item'', JStr ''ink'')]])]\<rparr>"
proof -
  have a: "status (fst (table_data ''orders'' (JStr ''2'') (JStr ''0'') orders_pool)) = 200"
    by code_simp
  have b: "status (fst (database_table_data ''shop'' ''orders'' (JStr ''2'') (JStr ''0'') shop_db_pool)) = 200"
    by code_simp
  have c: "fst (table_data ''orders'' (JStr ''2'') (JStr ''0'') orders_pool) =
        \<lparr>status = 200,
         body = [(''success'', JBool True), (''table'', JStr ''orders''), (''total'', JNum 5),
                 (''count'', JNum 2),
                 (''data'', JArr [JObj [(''id'', JNum 1), (''item'', JStr ''pen'')],
                                  JObj [(''id'', JNum 2), (''item'', JStr ''ink'')]])]\<rparr>"
    by code_simp
  from paged_data_round_trips [of "''orders''" "JStr ''2''" "JStr ''0''" orders_pool]
  have d: "\<exists>rows c cs.
      round_trips (table_data ''orders'' (JStr ''2'') (JStr ''0'')) orders_pool
        = [(page_query ''orders'' (JStr ''2'') (JStr ''0''), Inr rows), (count_query ''orders'', Inr (c # cs))]
    \<and> fst (table_data ''orders'' (JStr ''2'') (JStr ''0'') orders_pool) =
        res_json 200 [(''success'', JBool True), (''table'', JStr ''orders''),
                      (''total'', get_prop c ''total''),
                      (''count'', JNum (int (length rows))),
                      (''data'', JArr (map JObj rows))]"
    using a by blast
  from paged_data_round_trips [of "''orders''" "JStr ''2''" "JStr ''0''" shop_db_pool "''shop''"]
  have e: "\<exists>rows c cs.
      round_trips (database_table_data ''shop'' ''orders'' (JStr ''2'') (JStr ''0'')) shop_db_pool
        = [(db_page_query ''shop'' ''orders'' (JStr ''2'') (JStr ''0''), Inr rows),
           (db_count_query ''shop'' ''orders'', Inr (c # cs))]
    \<and> fst (database_table_data ''shop'' ''orders'' (JStr ''2'') (JStr ''0'') shop_db_pool) =
        res_json 200 [(''success'', JBool True), (''database'', JStr ''shop''), (''table'', JStr ''orders''),
                      (''total'', get_prop c ''total''),
                      (''count'', JNum (int (length rows))),
                      (''data'', JArr (map JObj rows))]"
    using b by blast
  from c d e show ?thesis by blast
qed

section \<open>Fixed-table shortcuts\<close>

lemma fixed_table_trips:
  "map fst (round_trips (fixed_table T limit) p) = [limit_query T limit]"
  by (simp add: fixed_table_def round_trips_def pool_query_def Let_def limit_query_def
      split: prod.splits sum.splits)

lemma fixed_table_no_total: "map_of (body (fst (fixed_table T limit p))) ''total'' = None"
  by (simp add: fixed_table_def res_json_def catch_500_def split: prod.splits sum.splits)

lemma fixed_table_matches:
  assumes "parseInt (js_or offset (JNum 0)) = JNum 0"
    and "fst (server p (limit_query T limit) (db p)) =
         fst (server p \<lparr>sql = ''SELECT * FROM '' @ T @ '' LIMIT ? OFFSET ?'',
                        params = [parseInt (js_or limit (JNum 100)), JNum 0]\<rparr> (db p))"
    and "\<forall>rows d. server p (page_query T limit offset) (db p) = (Inr rows, d) \<longrightarrow>
           (\<exists>c cs. fst (server p (count_query T) d) = Inr (c # cs))"
  shows "rows_and_count (fst (fixed_table T limit p)) = rows_and_count (fst (table_data T limit offset p))"
proof -
  obtain r d where a: "server p (page_query T limit offset) (db p) = (r, d)"
    by (cases "server p (page_query T limit offset) (db p)")
  obtain r' d' where b: "server p (limit_query T limit) (db p) = (r', d')"
    by (cases "server p (limit_query T limit) (db p)")
  from assms(1,2) a b have r: "r' = r"
    by (simp add: page_query_def page_params_def)
  show ?thesis
  proof (cases r)
    case (Inl m)
    with a b r show ?thesis
      by (simp add: fixed_table_def table_data_def rows_and_count_def limit_query_def page_query_def
          pool_query_def Let_def res_json_def catch_500_def)
  next
    case (Inr rows)
    with assms(3) a obtain c cs e where "server p (count_query T) d = (Inr (c # cs), e)"
      by (metis fst_conv surj_pair)
    with a b r Inr show ?thesis
      by (simp add: fixed_table_def table_data_def rows_and_count_def limit_query_def page_query_def
          count_query_def pool_query_def Let_def res_json_def first_total_def)
  qed
qed

lemma fixed_table_envelope:
  assumes "parseInt (js_or offset (JNum 0)) = JNum 0"
    and "fst (server p (limit_query T limit) (db p)) =
         fst (server p \<lparr>sql = ''SELECT * FROM '' @ T @ '' LIMIT ? OFFSET ?'',
                        params = [parseInt (js_or limit (JNum 100)), JNum 0]\<rparr> (db p))"
    and "status (fst (table_data T limit offset p)) = 200"
  shows "fst (fixed_table T limit p) = without_table_total (fst (table_data T limit offset p))"
proof -
  obtain r d where a: "server p (page_query T limit offset) (db p) = (r, d)"
    by (cases "server p (page_query T limit offset) (db p)")
  obtain r' d' where b: "server p (limit_query T limit) (db p) = (r', d')"
    by (cases "server p (limit_query T limit) (db p)")
  from assms(1,2) a b have r: "r' = r"
    by (simp add: page_query_def page_params_def)
  obtain c e where c: "server p (count_query T) d = (c, e)"
    by (cases "server p (count_query T) d")
  from assms(3) a b c r show ?thesis
    by (auto simp add: fixed_table_def table_data_def without_table_total_def limit_query_def
        page_query_def count_query_def pool_query_def Let_def res_json_def first_total_def
        split: sum.splits list.splits)
qed

text \<open>
  Claim C8, as the specification states it, fails: when the connection is reset after
  the first statement, \<^verbatim>\<open>/deals?limit=2\<close> returns the first two rows and the count
  2, while paged table data on \<^verbatim>\<open>deal\<close> with limit 2 and offset 0 has its page
  answered in the same way, is refused the \<^verbatim>\<open>COUNT(*)\<close> statement and returns
  neither rows nor count.
\<close>

theorem shortcut_counterexample:
  "fst (server deal_reset_pool (limit_query ''deal'' (JStr ''2'')) (db deal_reset_pool))
     = fst (server deal_reset_pool (page_query ''deal'' (JStr ''2'') (JStr ''0'')) (db deal_reset_pool))
   \<and> rows_and_count (fst (deals (JStr ''2'') deal_reset_pool))
     = (Some (JArr [JObj [(''id'', JNum 1), (''item'', JStr ''pen'')],
                    JObj [(''id'', JNum 2), (''item'', JStr ''ink'')]]), Some (JNum 2))
   \<and> rows_and_count (fst (table_data ''deal'' (JStr ''2'') (JStr ''0'') deal_reset_pool)) = (None, None)
   \<and> fst (table_data ''deal'' (JStr ''2'') (JStr ''0'') deal_reset_pool)
     = \<lparr>status = 500, body = [(''success'', JBool False), (''error'', JStr ''read ECONNRESET'')]\<rparr>"
  by code_simp

text \<open>
  Claim C8, amended. For every limit, each shortcut makes exactly one round-trip, the
  statement \<^verbatim>\<open>SELECT * FROM <table> LIMIT ?\<close> on its table with the coerced limit
  as the only bound value: there is no offset and no \<^verbatim>\<open>COUNT(*)\<close> statement, and
  its response has no \<^verbatim>\<open>total\<close> field. Let the database answer that statement as
  it answers the page statement of paged table data with the same limit and offset 0.
  Then, whenever paged table data answers with status 200, the shortcut's response is
  that response without the fields \<^verbatim>\<open>table\<close> and \<^verbatim>\<open>total\<close>; and when the
  database answers the \<^verbatim>\<open>COUNT(*)\<close> statement once it has answered the page, the
  shortcut returns the same rows and the same count as paged table data.
\<close>

theorem shortcut_is_table_data_without_count:
  assumes "(T, h) \<in> set shortcuts"
  shows "map fst (round_trips (h limit) p)
           = [\<lparr>sql = ''SELECT * FROM '' @ T @ '' LIMIT ?'', params = [parseInt (js_or limit (JNum 100))]\<rparr>]
       \<and> map_of (body (fst (h limit p))) ''total'' = None
       \<and> (parseInt (js_or offset (JNum 0)) = JNum 0
          \<and> fst (server p (limit_query T limit) (db p)) =
              fst (server p \<lparr>sql = ''SELECT * FROM '' @ T @ '' LIMIT ? OFFSET ?'',
                             params = [parseInt (js_or limit (JNum 100)), JNum 0]\<rparr> (db p))
          \<longrightarrow>
            (status (fst (table_data T limit offset p)) = 200 \<longrightarrow>
               fst (h limit p) = without_table_total (fst (table_data T limit offset p)))
          \<and> ((\<forall>rows d. server p (page_query T limit offset) (db p) = (Inr rows, d) \<longrightarrow>
                  (\<exists>c cs. fst (server p (count_query T) d) = Inr (c # cs))) \<longrightarrow>
               rows_and_count (fst (h limit p)) = rows_and_count (fst (table_data T limit offset p))))"
proof -
  from assms have h: "h = fixed_table T"
    by (auto simp add: shortcuts_def deals_def companies_def contacts_def leads_def)
  have "map fst (round_trips (h limit) p)
           = [\<lparr>sql = ''SELECT * FROM '' @ T @ '' LIMIT ?'', params = [parseInt (js_or limit (JNum 100))]\<rparr>]"
    using fixed_table_trips [of T limit p] by (simp add: h limit_query_def)
  moreover have "map_of (body (fst (h limit p))) ''total'' = None"
    by (simp add: h fixed_table_no_total)
  ultimately show ?thesis
    using fixed_table_envelope [of offset p T limit] fixed_table_matches [of offset p T limit]
    unfolding h by blast
qed

theorem shortcut_is_table_data_without_count_witness:
  "map fst (round_trips (deals (JStr ''2'')) deal_pool)
     = [\<lparr>sql = ''SELECT * FROM deal LIMIT ?'', params = [JNum 2]\<rparr>]
   \<and> fst (deals (JStr ''2'') deal_pool) = without_table_total (fst (table_data ''deal'' (JStr ''2'') JUndefined deal_pool))
   \<and> rows_and_count (fst (deals (JStr ''2'') deal_pool))
     = rows_and_count (fst (table_data ''deal'' (JStr ''2'') JUndefined deal_pool))
   \<and> fst (deals (JStr ''2'') deal_pool)
     = \<lparr>status = 200,
        body = [(''success'', JBool True), (''count'', JNum 2),
                (''data'', JArr [JObj [(''id'', JNum 1), (''item'', JStr ''pen'')],
                                 JObj [(''id'', JNum 2), (''item'', JStr ''ink'')]])]\<rparr>"
proof -
  have a: "(''deal'', deals) \<in> set (shortcuts :: (string \<times> (js_value \<Rightarrow> nat pool \<Rightarrow> response \<times> nat pool)) list)"
    by (simp add: shortcuts_def)
  have b: "parseInt (js_or JUndefined (JNum 0)) = JNum 0"
    by code_simp
  have c: "fst (server deal_pool (limit_query ''deal'' (JStr ''2'')) (db deal_pool)) =
           fst (server deal_pool \<lparr>sql = ''SELECT * FROM '' @ ''deal'' @ '' LIMIT ? OFFSET ?'',
                  params = [parseInt (js_or (JStr ''2'') (JNum 100)), JNum 0]\<rparr> (db deal_pool))"
    by code_simp
  have d: "\<forall>rows d. server deal_pool (page_query ''deal'' (JStr ''2'') JUndefined) (db deal_pool) = (Inr rows, d) \<longrightarrow>
           (\<exists>c cs. fst (server deal_pool (count_query ''deal'') d) = Inr (c # cs))"
    by (simp add: deal_pool_def table_server_def count_query_def)
  have e: "status (fst (table_data ''deal'' (JStr ''2'') JUndefined deal_pool)) = 200"
    by code_simp
  have f: "fst (deals (JStr ''2'') deal_pool)
     = \<lparr>status = 200,
        body = [(''success'', JBool True), (''count'', JNum 2),
                (''data'', JArr [JObj [(''id'', JNum 1), (''item'', JStr ''pen'')],
                                 JObj [(''id'', JNum 2), (''item'', JStr ''ink'')]])]\<rparr>"
    by code_simp
  have g: "parseInt (js_or (JStr ''2'') (JNum 100)) = JNum 2"
    by code_simp
  note t = shortcut_is_table_data_without_count [OF a, of "JStr ''2''" deal_pool JUndefined]
  from t g have t1: "map fst (round_trips (deals (JStr ''2'')) deal_pool)
     = [\<lparr>sql = ''SELECT * FROM deal LIMIT ?'', params = [JNum 2]\<rparr>]"
    by simp
  from t b c e have t2: "fst (deals (JStr ''2'') deal_pool)
     = without_table_total (fst (table_data ''deal'' (JStr ''2'') JUndefined deal_pool))"
    by blast
  from t b c d have t3: "rows_and_count (fst (deals (JStr ''2'') deal_pool))
     = rows_and_count (fst (table_data ''deal'' (JStr ''2'') JUndefined deal_pool))"
    by blast
  from t1 t2 t3 f show ?thesis by blast
qed

section \<open>Repeated requests\<close>








section \<open>Count and collection\<close>

text \<open>
  Claim C10. Whenever the response to a request carries an array under \<^verbatim>\<open>data\<close>,
  \<^verbatim>\<open>tables\<close> or \<^verbatim>\<open>databases\<close>, its \<^verbatim>\<open>count\<close> field is the length of that
  array.
\<close>

theorem count_is_length:
  assumes "k \<in> {''data'', ''tables'', ''databases''}"
    and "map_of (body (fst (handle r p))) k = Some (JArr xs)"
  shows "map_of (body (fst (handle r p))) ''count'' = Some (JNum (int (length xs)))"
  using assms
  by (cases r)
     (auto simp add: health_def tables_def table_structure_def table_data_def query_handler_def
        deals_def companies_def contacts_def leads_def fixed_table_def databases_def
        database_tables_def database_table_data_def database_table_structure_def Let_def
        res_json_def catch_500_def
        split: prod.splits sum.splits bool.splits if_splits)

theorem count_is_length_witness:
  "map_of (body (fst (handle (TableData ''orders'' (JStr ''2'') (JStr ''0'')) orders_pool))) ''count''
     = Some (JNum (int (length [JObj [(''id'', JNum 1), (''item'', JStr ''pen'')],
                                JObj [(''id'', JNum 2), (''item'', JStr ''ink'')]])))"
proof -
  have a: "''data'' \<in> {''data'', ''tables'', ''databases''}" by simp
  have b: "map_of (body (fst (handle (TableData ''orders'' (JStr ''2'') (JStr ''0'')) orders_pool))) ''data''
     = Some (JArr [JObj [(''id'', JNum 1), (''item'', JStr ''pen'')],
                   JObj [(''id'', JNum 2), (''item'', JStr ''ink'')]])"
    by code_simp
  show ?thesis by (rule count_is_length [OF a b])
qed

end
